theory Spec2Isabelle
  imports Main "HOL-Library.Word" "HOL-Library.Multiset"
begin

section \<open>Light models (include/models/light.h)\<close>

text \<open>
  The header declares plain C++ enumerations and structs. An enumeration is a list of
  enumerator names with their integer values (the first is given as \<open>0x00\<close>, every
  further one is its predecessor plus one); a struct is the list of its member names.
  Keeping the declarations as tables makes it possible to ask whether an identifier that
  another translation unit writes is declared here at all.
\<close>

fun enumerate_from :: "nat \<Rightarrow> string list \<Rightarrow> (string \<times> nat) list" where
  "enumerate_from n [] = []"
| "enumerate_from n (x # xs) = (x, n) # enumerate_from (Suc n) xs"

definition LightCommand_enumerators :: "(string \<times> nat) list" where
  "LightCommand_enumerators = enumerate_from 0
     [''NoCommand'', ''LightsOff'', ''LightsReset'', ''LightsBrakeNormal'',
      ''LightsBrakeActive'', ''LightsHeadlightNormal'', ''LightsHeadlightBright'',
      ''LightsTurnCenter'', ''LightsTurnLeft'', ''LightsTurnRight'', ''LightsTurnHazard'']"

definition LightCommands_members :: "string list" where
  "LightCommands_members = [''brakeCommand'', ''turnCommand'', ''headlightCommand'']"

datatype LightEffect =
    Off | Static | Blink | ColorWipe | Breathe | Fade | Scan | Rainbow | RainbowCycle
  | ColorChase | TheaterChase | TheaterChaseRainbow | Twinkle | Sparkle | Alternate

text \<open>
  \<open>struct LightingParameters\<close>. The type \<open>Color\<close> is declared outside the header,
  so it is a type parameter here. \<open>layer\<close> is a \<open>uint8_t\<close>, \<open>duration\<close> a
  \<open>uint32_t\<close>.
\<close>

record 'color LightingParameters =
  region :: string
  effect :: LightEffect
  layer :: "8 word"
  first :: 'color
  second :: 'color
  third :: 'color
  duration :: "32 word"

text \<open>The six comparison operators of lines 97 to 102.\<close>

definition operator_less :: "'c LightingParameters \<Rightarrow> 'c LightingParameters \<Rightarrow> bool" where
  "operator_less lhs rhs = (layer lhs < layer rhs)"

definition operator_greater :: "'c LightingParameters \<Rightarrow> 'c LightingParameters \<Rightarrow> bool" where
  "operator_greater lhs rhs = (layer lhs > layer rhs)"

definition operator_less_eq :: "'c LightingParameters \<Rightarrow> 'c LightingParameters \<Rightarrow> bool" where
  "operator_less_eq lhs rhs = (layer lhs \<le> layer rhs)"

definition operator_greater_eq :: "'c LightingParameters \<Rightarrow> 'c LightingParameters \<Rightarrow> bool" where
  "operator_greater_eq lhs rhs = (layer lhs \<ge> layer rhs)"

definition operator_eq :: "'c LightingParameters \<Rightarrow> 'c LightingParameters \<Rightarrow> bool" where
  "operator_eq lhs rhs = (layer lhs = layer rhs)"

definition operator_not_eq :: "'c LightingParameters \<Rightarrow> 'c LightingParameters \<Rightarrow> bool" where
  "operator_not_eq lhs rhs = (layer lhs \<noteq> layer rhs)"

section \<open>Types used by the application core (src/app.cpp)\<close>

text \<open>
  Modelled from the spec: the enumerations \<open>AccelerationState\<close>, \<open>TurnState\<close>,
  \<open>Orientation\<close> and \<open>LightMode\<close> and \<open>struct VehicleState\<close> are declared in
  headers that are not part of the sources at hand. The constructors below are the
  enumerators that app.cpp names. A C++ enumeration can hold further values, which the
  \<open>default\<close> labels of the switches catch; the last constructor of each type stands
  for them.
\<close>

datatype AccelerationState = Neutral | Braking | AccelerationState_other nat

datatype TurnState = Center | Left | Right | Hazard | TurnState_other nat

datatype Orientation = TopSideUp | Orientation_other nat

datatype LightMode =
    RunningMode | TheaterChaseRainbowMode | TheaterChaseMode | RainbowMode | LightningMode
  | LightMode_other nat

record VehicleState =
  acceleration :: AccelerationState
  turn :: TurnState
  orientation :: Orientation

text \<open>
  Modelled from the spec: app.cpp writes the enumerators \<open>LightsBrake\<close> and
  \<open>LightsRunning\<close> and assigns a member \<open>mode\<close> of \<open>LightCommands\<close>, none of which
  the header light.h above declares. The command type and the bundle that app.cpp
  computes with are therefore the ones the spec lists; \<open>LightCommand_name\<close> gives the
  identifier that the source text uses for a command, to be looked up in the header's
  table.
\<close>

datatype LightCommand =
    NoCommand | LightsOff | LightsReset | LightsBrake | LightsRunning
  | LightsHeadlightNormal | LightsHeadlightBright
  | LightsTurnCenter | LightsTurnLeft | LightsTurnRight | LightsTurnHazard

fun LightCommand_name :: "LightCommand \<Rightarrow> string" where
  "LightCommand_name NoCommand = ''NoCommand''"
| "LightCommand_name LightsOff = ''LightsOff''"
| "LightCommand_name LightsReset = ''LightsReset''"
| "LightCommand_name LightsBrake = ''LightsBrake''"
| "LightCommand_name LightsRunning = ''LightsRunning''"
| "LightCommand_name LightsHeadlightNormal = ''LightsHeadlightNormal''"
| "LightCommand_name LightsHeadlightBright = ''LightsHeadlightBright''"
| "LightCommand_name LightsTurnCenter = ''LightsTurnCenter''"
| "LightCommand_name LightsTurnLeft = ''LightsTurnLeft''"
| "LightCommand_name LightsTurnRight = ''LightsTurnRight''"
| "LightCommand_name LightsTurnHazard = ''LightsTurnHazard''"

record LightCommands =
  mode :: LightMode
  brakeCommand :: LightCommand
  turnCommand :: LightCommand
  headlightCommand :: LightCommand

subsection \<open>FreeRTOS queues owned by the application\<close>

text \<open>
  A queue created by \<open>xQueueCreate\<close> holds at most \<open>capacity\<close> items, oldest first.
  \<open>xQueueReceive\<close> with a block time of 0 returns at once: \<open>None\<close> is \<open>pdFALSE\<close>
  (nothing waiting), \<open>Some (x, q')\<close> is \<open>pdTRUE\<close> with the received item and the
  remaining queue.
\<close>

record 'a Queue =
  capacity :: nat
  items :: "'a list"

definition xQueueCreate :: "nat \<Rightarrow> 'a Queue" where
  "xQueueCreate n = \<lparr>capacity = n, items = []\<rparr>"

definition uxQueueMessagesWaiting :: "'a Queue \<Rightarrow> nat" where
  "uxQueueMessagesWaiting q = length (items q)"

definition xQueueReceive :: "'a Queue \<Rightarrow> ('a \<times> 'a Queue) option" where
  "xQueueReceive q = (case items q of [] \<Rightarrow> None | x # xs \<Rightarrow> Some (x, q\<lparr>items := xs\<rparr>))"

subsection \<open>Collaborators\<close>

text \<open>
  The renderer classes, the listeners, the lights and the scheduler are collaborators of
  the core. A renderer is the class and constructor argument it was built with and its
  three command queue handles, each of which may be \<open>NULL\<close>. A listener is its
  notification queue handle. Every call that leaves the core is appended to a trace of
  events, in program order; a \<open>xQueueSend\<close> with a block time of 0 on a collaborator's
  queue is recorded as the call itself, whether or not the queue has room.
\<close>

datatype ConfigRef = AmpConfig

record Config =
  prefs_renderer :: LightMode

datatype RendererClass = PatternRenderer string | RunningRenderer "ConfigRef option"

record Renderer =
  rendererClass :: RendererClass
  brakelightQueue :: "nat option"
  turnlightQueue :: "nat option"
  headlightQueue :: "nat option"

record RenderListener =
  lightsChangedQueue :: "nat option"

datatype Event =
    is_VTaskDelete: VTaskDelete nat
  | is_RendererShutdown: RendererShutdown Renderer
  | is_RendererNew: RendererNew Renderer
  | is_LightsRender: LightsRender
  | is_XTaskCreatePinnedToCore: XTaskCreatePinnedToCore "nat option" nat
  | is_CommandSend: CommandSend nat LightCommand
  | is_CommandsSend: CommandsSend nat LightCommands

datatype Fault = NullPointer | BadAlloc | UninitialisedRead

subsection \<open>The application object\<close>

text \<open>
  The members of \<open>App\<close> that app.cpp reads and writes, the global
  \<open>Config::ampConfig\<close>, the render host tasks that the scheduler runs and the trace.
  The class declaration with the initial member values is not part of the sources at
  hand, so the theorems range over every value of the record.
\<close>

record App =
  config :: "ConfigRef option"
  ampConfig :: Config
  configUpdatedQueue :: "bool Queue"
  lightModeQueue :: "LightMode Queue"
  vehicleQueue :: "VehicleState Queue"
  vehicleState :: VehicleState
  lightMode :: LightMode
  renderer :: "Renderer option"
  renderHostHandle :: "nat option"
  renderListeners :: "RenderListener list"
  tasks :: "nat list"
  nextTask :: nat
  events :: "Event list"

type_synonym result = "(Fault \<times> App) + App"

text \<open>The constructor \<open>App::App\<close> creates the three inbound queues.\<close>

definition App_constructor :: "App \<Rightarrow> App" where
  "App_constructor app =
     app\<lparr>configUpdatedQueue := xQueueCreate 1,
         lightModeQueue := xQueueCreate 1,
         vehicleQueue := xQueueCreate 5\<rparr>"

definition emit :: "Event list \<Rightarrow> App \<Rightarrow> App" where
  "emit es app = app\<lparr>events := events app @ es\<rparr>"

text \<open>
  \<open>vTaskDelete\<close> removes a task from the scheduler. \<open>xTaskCreatePinnedToCore\<close> starts
  a new task; its sixth parameter \<open>pxCreatedTask\<close> is a pointer through which the new
  handle is handed back when it is not \<open>NULL\<close>. The argument is passed by value, so the
  call does not assign any member of \<open>App\<close>; pointer and handle are in the event.
\<close>

definition vTaskDelete :: "nat \<Rightarrow> App \<Rightarrow> App" where
  "vTaskDelete h app = emit [VTaskDelete h] (app\<lparr>tasks := removeAll h (tasks app)\<rparr>)"

definition xTaskCreatePinnedToCore :: "nat option \<Rightarrow> App \<Rightarrow> App" where
  "xTaskCreatePinnedToCore pxCreatedTask app =
     emit [XTaskCreatePinnedToCore pxCreatedTask (nextTask app)]
       (app\<lparr>tasks := tasks app @ [nextTask app], nextTask := Suc (nextTask app)\<rparr>)"

text \<open>
  A \<open>new\<close> expression either yields the constructed renderer or fails; the parameter
  \<open>new\<close> of the functions below decides which, and gives the queues of the renderer
  built. Nothing in app.cpp handles the failure, so it leaves the function with the
  members as they are at that point.
\<close>

definition new_renderer ::
  "(RendererClass \<Rightarrow> Renderer option) \<Rightarrow> RendererClass \<Rightarrow> App \<Rightarrow> result" where
  "new_renderer new cls app =
     (case new cls of
        None \<Rightarrow> Inl (BadAlloc, app)
      | Some r \<Rightarrow> Inr (emit [RendererNew r] (app\<lparr>renderer := Some r\<rparr>)))"

subsection \<open>Listener fan-out and the three command senders (lines 232 to 267)\<close>

primrec send_to_listeners :: "LightCommands \<Rightarrow> RenderListener list \<Rightarrow> App \<Rightarrow> App" where
  "send_to_listeners commands [] app = app"
| "send_to_listeners commands (listener # rest) app =
     send_to_listeners commands rest
       (case lightsChangedQueue listener of
          None \<Rightarrow> app
        | Some q \<Rightarrow> emit [CommandsSend q commands] app)"

definition notifyLightsChanged ::
  "LightCommand \<Rightarrow> LightCommand \<Rightarrow> LightCommand \<Rightarrow> App \<Rightarrow> App" where
  "notifyLightsChanged brake turnc headlight app =
     (let commands = \<lparr>mode = lightMode app, brakeCommand = brake, turnCommand = turnc,
                      headlightCommand = headlight\<rparr>
      in send_to_listeners commands (renderListeners app) app)"

definition setHeadlight :: "LightCommand \<Rightarrow> App \<Rightarrow> App" where
  "setHeadlight command app =
     notifyLightsChanged NoCommand NoCommand command
       (case renderer app of
          None \<Rightarrow> app
        | Some r \<Rightarrow>
            (case headlightQueue r of
               None \<Rightarrow> app
             | Some q \<Rightarrow> emit [CommandSend q command] app))"

definition setBrakes :: "LightCommand \<Rightarrow> App \<Rightarrow> App" where
  "setBrakes command app =
     notifyLightsChanged command NoCommand NoCommand
       (case renderer app of
          None \<Rightarrow> app
        | Some r \<Rightarrow>
            (case brakelightQueue r of
               None \<Rightarrow> app
             | Some q \<Rightarrow> emit [CommandSend q command] app))"

definition setTurnLights :: "LightCommand \<Rightarrow> App \<Rightarrow> App" where
  "setTurnLights command app =
     notifyLightsChanged NoCommand command NoCommand
       (case renderer app of
          None \<Rightarrow> app
        | Some r \<Rightarrow>
            (case turnlightQueue r of
               None \<Rightarrow> app
             | Some q \<Rightarrow> emit [CommandSend q command] app))"

subsection \<open>State change handlers (lines 116 to 176)\<close>

definition onAccelerationStateChanged :: "AccelerationState \<Rightarrow> App \<Rightarrow> App" where
  "onAccelerationStateChanged state app =
     (if renderer app \<noteq> None then
        setBrakes (case state of Braking \<Rightarrow> LightsBrake | _ \<Rightarrow> LightsRunning) app
      else app)"

definition onTurnStateChanged :: "TurnState \<Rightarrow> App \<Rightarrow> App" where
  "onTurnStateChanged state app =
     (if renderer app \<noteq> None then
        setTurnLights
          (case state of
             Left \<Rightarrow> LightsTurnLeft
           | Right \<Rightarrow> LightsTurnRight
           | Hazard \<Rightarrow> LightsTurnHazard
           | _ \<Rightarrow> LightsTurnCenter) app
      else app)"

definition onOrientationChanged :: "Orientation \<Rightarrow> App \<Rightarrow> App" where
  "onOrientationChanged state app =
     (if renderer app \<noteq> None then
        (let command = (case state of TopSideUp \<Rightarrow> LightsOff | _ \<Rightarrow> LightsReset)
         in setHeadlight command (setBrakes command (setTurnLights command app)))
      else app)"

subsection \<open>Changing the light mode (lines 178 to 213)\<close>

text \<open>
  The call \<open>notifyLightsChanged()\<close> at the end relies on default arguments of the
  missing class declaration; modelled from the spec, which has the bundle carry
  \<open>NoCommand\<close> in all three command members. \<open>renderer->shutdown()\<close> on a null
  renderer is the fault \<open>NullPointer\<close>; a failed \<open>new\<close> is the fault \<open>BadAlloc\<close>.
  A fault is returned together with the application object as it is at that point.
\<close>

definition setLightMode ::
  "(RendererClass \<Rightarrow> Renderer option) \<Rightarrow> LightMode \<Rightarrow> App \<Rightarrow> result" where
  "setLightMode new m app =
     (if lightMode app \<noteq> m then
        (case (case renderHostHandle app of
                 None \<Rightarrow> Inr app
               | Some h \<Rightarrow>
                   (let a = vTaskDelete h app
                    in case renderer a of
                         None \<Rightarrow> Inl (NullPointer, a)
                       | Some r \<Rightarrow>
                           Inr ((emit [RendererShutdown r] a)
                                  \<lparr>renderer := None, renderHostHandle := None\<rparr>)))
         of
           Inl f \<Rightarrow> Inl f
         | Inr a1 \<Rightarrow>
             (case (case m of
                      TheaterChaseRainbowMode \<Rightarrow>
                        new_renderer new (PatternRenderer ''theater-chase-rainbow'') a1
                    | TheaterChaseMode \<Rightarrow>
                        new_renderer new (PatternRenderer ''theater-chase'') a1
                    | RainbowMode \<Rightarrow>
                        new_renderer new (PatternRenderer ''rainbow'') a1
                    | LightningMode \<Rightarrow>
                        new_renderer new (PatternRenderer ''lightning'') a1
                    | _ \<Rightarrow>
                        (case new_renderer new (RunningRenderer (config a1)) a1 of
                           Inl f \<Rightarrow> Inl f
                         | Inr a \<Rightarrow> Inr (emit [LightsRender] a)))
              of
                Inl f \<Rightarrow> Inl f
              | Inr a2 \<Rightarrow>
                  Inr (notifyLightsChanged NoCommand NoCommand NoCommand
                         ((xTaskCreatePinnedToCore (renderHostHandle a2) a2)
                            \<lparr>lightMode := m\<rparr>))))
      else Inr app)"

definition onConfigUpdated :: "(RendererClass \<Rightarrow> Renderer option) \<Rightarrow> App \<Rightarrow> result" where
  "onConfigUpdated new app =
     (let a = app\<lparr>config := Some AmpConfig\<rparr>
      in setLightMode new (prefs_renderer (ampConfig a)) a)"

subsection \<open>The processing cycle (lines 68 to 114)\<close>

text \<open>
  The loop of lines 84 to 86: while the vehicle queue reports waiting messages, receive
  one into the local \<open>state\<close> and keep the return value in \<open>newVehicleState\<close>.
  \<open>state\<close> starts out uninitialised (\<open>None\<close>).
\<close>

function drain_vehicleQueue ::
  "VehicleState Queue \<Rightarrow> VehicleState option \<Rightarrow> bool
     \<Rightarrow> VehicleState Queue \<times> VehicleState option \<times> bool" where
  "drain_vehicleQueue q state newVehicleState =
     (if uxQueueMessagesWaiting q \<noteq> 0 then
        (case xQueueReceive q of
           None \<Rightarrow> drain_vehicleQueue q state False
         | Some (x, q') \<Rightarrow> drain_vehicleQueue q' (Some x) True)
      else (q, state, newVehicleState))"
  by pat_completeness auto
termination
  by (relation "measure (\<lambda>(q, state, new). length (items q))")
     (auto simp: uxQueueMessagesWaiting_def xQueueReceive_def split: list.splits)

text \<open>
  The translation unit is taken with \<open>BLE_ENABLED\<close> undefined, so the calls into the
  Bluetooth services are not compiled. \<open>App::process\<close> is three blocks in a row, given
  here one by one: the configuration signal (lines 71 to 74), the mode request (lines 76
  to 80) and the vehicle state (lines 82 to 104). The last block runs its body when the
  last receive succeeded; the body reads the received \<open>state\<close>, and reading it
  while it is still uninitialised would be the fault \<open>UninitialisedRead\<close>.
\<close>

definition process_configUpdated :: "(RendererClass \<Rightarrow> Renderer option) \<Rightarrow> App \<Rightarrow> result" where
  "process_configUpdated new app =
     (if uxQueueMessagesWaiting (configUpdatedQueue app) \<noteq> 0 then
        (case xQueueReceive (configUpdatedQueue app) of
           None \<Rightarrow> Inr app
         | Some (valid, q') \<Rightarrow>
             (if valid then onConfigUpdated new (app\<lparr>configUpdatedQueue := q'\<rparr>)
              else Inr (app\<lparr>configUpdatedQueue := q'\<rparr>)))
      else Inr app)"

definition process_lightMode :: "(RendererClass \<Rightarrow> Renderer option) \<Rightarrow> App \<Rightarrow> result" where
  "process_lightMode new app =
     (if uxQueueMessagesWaiting (lightModeQueue app) \<noteq> 0 then
        (case xQueueReceive (lightModeQueue app) of
           None \<Rightarrow> Inr app
         | Some (m, q') \<Rightarrow> setLightMode new m (app\<lparr>lightModeQueue := q'\<rparr>))
      else Inr app)"

definition process_vehicleState :: "App \<Rightarrow> result" where
  "process_vehicleState app =
     (case drain_vehicleQueue (vehicleQueue app) None False of
        (q', state, newVehicleState) \<Rightarrow>
          (let a = app\<lparr>vehicleQueue := q'\<rparr>
           in if newVehicleState then
                (case state of
                   None \<Rightarrow> Inl (UninitialisedRead, a)
                 | Some st \<Rightarrow>
                     (let a1 = (if acceleration (vehicleState a) \<noteq> acceleration st
                                then onAccelerationStateChanged (acceleration st) a
                                else a);
                          a2 = (if turn (vehicleState a1) \<noteq> turn st
                                then onTurnStateChanged (turn st) a1
                                else a1);
                          a3 = (if orientation (vehicleState a2) \<noteq> orientation st
                                then onOrientationChanged (orientation st) a2
                                else a2)
                      in Inr (a3\<lparr>vehicleState := st\<rparr>)))
              else Inr a))"

definition process :: "(RendererClass \<Rightarrow> Renderer option) \<Rightarrow> App \<Rightarrow> result" where
  "process new app =
     (case process_configUpdated new app of
        Inl f \<Rightarrow> Inl f
      | Inr a1 \<Rightarrow>
          (case process_lightMode new a1 of
             Inl f \<Rightarrow> Inl f
           | Inr a2 \<Rightarrow> process_vehicleState a2))"

section \<open>Concrete values used in the examples\<close>

text \<open>A lighting request on layer \<open>l\<close> whose first colour is \<open>c\<close>.\<close>

definition lp :: "8 word \<Rightarrow> nat \<Rightarrow> nat LightingParameters" where
  "lp l c = \<lparr>region = ''brake'', effect = Static, layer = l, first = c, second = 0,
              third = 0, duration = 0\<rparr>"

text \<open>
  A renderer with all three command queues, an allocator that always succeeds and one
  that always fails, and an application object as the constructor leaves it: no renderer,
  no render host task, a mode that is none of the five named ones, a stored vehicle state
  that is neither neutral nor centred, and two listeners of which the second has no
  queue. \<open>app_running\<close> is the same object in running mode with a renderer,
  \<open>app_pending\<close> has three vehicle states waiting, \<open>app_pending_off\<close> has them
  waiting with no renderer, \<open>app_first\<close> has the single state (Neutral, Center,
  TopSideUp) waiting, and \<open>app_torn\<close> is \<open>app_running\<close> with a task handle stored.
\<close>

definition renderer0 :: Renderer where
  "renderer0 = \<lparr>rendererClass = RunningRenderer None, brakelightQueue = Some 10,
                 turnlightQueue = Some 11, headlightQueue = Some 12\<rparr>"

definition new0 :: "RendererClass \<Rightarrow> Renderer option" where
  "new0 cls = Some \<lparr>rendererClass = cls, brakelightQueue = Some 10,
                     turnlightQueue = Some 11, headlightQueue = Some 12\<rparr>"

definition new_fails :: "RendererClass \<Rightarrow> Renderer option" where
  "new_fails cls = None"

definition app0 :: App where
  "app0 = App_constructor
     \<lparr>config = None, ampConfig = \<lparr>prefs_renderer = RunningMode\<rparr>,
      configUpdatedQueue = xQueueCreate 0, lightModeQueue = xQueueCreate 0,
      vehicleQueue = xQueueCreate 0,
      vehicleState = \<lparr>acceleration = AccelerationState_other 0, turn = TurnState_other 0,
                      orientation = TopSideUp\<rparr>,
      lightMode = LightMode_other 0, renderer = None, renderHostHandle = None,
      renderListeners = [\<lparr>lightsChangedQueue = Some 20\<rparr>, \<lparr>lightsChangedQueue = None\<rparr>],
      tasks = [], nextTask = 0, events = []\<rparr>"

definition app_running :: App where
  "app_running = app0\<lparr>lightMode := RunningMode, renderer := Some renderer0\<rparr>"

definition app_pending :: App where
  "app_pending = app_running
     \<lparr>vehicleQueue := (vehicleQueue app_running)
        \<lparr>items := [\<lparr>acceleration = Braking, turn = Right, orientation = TopSideUp\<rparr>,
                   \<lparr>acceleration = Braking, turn = Hazard, orientation = Orientation_other 1\<rparr>,
                   \<lparr>acceleration = Neutral, turn = Center, orientation = TopSideUp\<rparr>]\<rparr>\<rparr>"

definition app_pending_off :: App where
  "app_pending_off = app_pending\<lparr>renderer := None\<rparr>"

definition app_torn :: App where
  "app_torn = app_running\<lparr>renderHostHandle := Some 3, tasks := [3], nextTask := 4\<rparr>"


section \<open>Expected traces\<close>

text \<open>
  Notation for the events that the theorems expect: the send on a renderer queue that may
  be \<open>NULL\<close>, the sends of one bundle to every listener that has a queue, and what a
  handler puts out on one of the three channels when a renderer is present.
\<close>

abbreviation queue_send :: "nat option \<Rightarrow> LightCommand \<Rightarrow> Event list" where
  "queue_send qo c \<equiv> (case qo of None \<Rightarrow> [] | Some q \<Rightarrow> [CommandSend q c])"

abbreviation fan_out :: "LightCommands \<Rightarrow> RenderListener list \<Rightarrow> Event list" where
  "fan_out c ls \<equiv> map (\<lambda>q. CommandsSend q c) (List.map_filter lightsChangedQueue ls)"

abbreviation commands :: "LightMode \<Rightarrow> LightCommand \<Rightarrow> LightCommand \<Rightarrow> LightCommand \<Rightarrow> LightCommands" where
  "commands m b t h \<equiv> \<lparr>mode = m, brakeCommand = b, turnCommand = t, headlightCommand = h\<rparr>"

abbreviation brake_output :: "App \<Rightarrow> LightCommand \<Rightarrow> Event list" where
  "brake_output app c \<equiv>
     (case renderer app of
        None \<Rightarrow> []
      | Some r \<Rightarrow> queue_send (brakelightQueue r) c
                  @ fan_out (commands (lightMode app) c NoCommand NoCommand) (renderListeners app))"

abbreviation turn_output :: "App \<Rightarrow> LightCommand \<Rightarrow> Event list" where
  "turn_output app c \<equiv>
     (case renderer app of
        None \<Rightarrow> []
      | Some r \<Rightarrow> queue_send (turnlightQueue r) c
                  @ fan_out (commands (lightMode app) NoCommand c NoCommand) (renderListeners app))"

abbreviation headlight_output :: "App \<Rightarrow> LightCommand \<Rightarrow> Event list" where
  "headlight_output app c \<equiv>
     (case renderer app of
        None \<Rightarrow> []
      | Some r \<Rightarrow> queue_send (headlightQueue r) c
                  @ fan_out (commands (lightMode app) NoCommand NoCommand c) (renderListeners app))"

section \<open>Ordering of lighting parameters\<close>

lemma sorted_by_operator_less:
  "sorted_wrt (\<lambda>a b. \<not> operator_less b a) ys \<longleftrightarrow> sorted (map layer ys)"
  by (simp add: sorted_wrt_map operator_less_def not_less sorted_map)

lemma sorted_perm_layers:
  assumes "sorted_wrt (\<lambda>a b. \<not> operator_less b a) ys" and "mset ys = mset xs"
  shows "map layer ys = sort (map layer xs)"
proof -
  have "sorted (map layer ys)"
    using assms(1) by (simp add: sorted_by_operator_less)
  moreover have "mset (map layer ys) = mset (map layer xs)"
    using assms(2) by (metis mset_map)
  ultimately show ?thesis
    by (metis properties_for_sort)
qed

lemma sort_layers_312: "sort [3, 1, 2 :: 8 word] = [1, 2, 3]"
  by (simp add: word_le_nat_alt)

text \<open>
  Claim C8. The comparison of two \<open>LightingParameters\<close> looks at \<open>layer\<close> only:
  \<open>a < b\<close> exactly when the layer of \<open>a\<close> is below the layer of \<open>b\<close>, and \<open>a == b\<close>
  exactly when the layers agree, whatever region, effect, colours and duration are.
  Hence every arrangement \<open>ys\<close> of values \<open>xs\<close> that is in order for \<open>operator<\<close>
  (no element is less than an earlier one) lists the layers in ascending order; with
  layers 3, 1, 2 that is 1, 2, 3. Two values of equal layer and different colours compare
  equal.
\<close>

theorem LightingParameters_order_by_layer:
  fixes a b :: "'c LightingParameters" and xs ys :: "'c LightingParameters list"
  shows "(operator_less a b \<longleftrightarrow> layer a < layer b)
       \<and> (operator_eq a b \<longleftrightarrow> layer a = layer b)
       \<and> operator_eq (a\<lparr>region := r, effect := e, first := c1, second := c2, third := c3, duration := d\<rparr>) a
       \<and> \<not> operator_less (a\<lparr>region := r, effect := e, first := c1, second := c2, third := c3, duration := d\<rparr>) a
       \<and> (sorted_wrt (\<lambda>p q. \<not> operator_less q p) ys \<longrightarrow> mset ys = mset xs \<longrightarrow>
              map layer ys = sort (map layer xs)
              \<and> (map layer xs = [3, 1, 2] \<longrightarrow> map layer ys = [1, 2, 3]))"
proof (intro conjI impI)
  assume o: "sorted_wrt (\<lambda>p q. \<not> operator_less q p) ys" and p: "mset ys = mset xs"
  show g: "map layer ys = sort (map layer xs)"
    using o p by (rule sorted_perm_layers)
  assume "map layer xs = [3, 1, 2]"
  with g show "map layer ys = [1, 2, 3]"
    by (simp only: sort_layers_312)
qed (simp_all add: operator_less_def operator_eq_def)

theorem LightingParameters_order_by_layer_witness:
  "map layer [lp 1 7, lp 2 8, lp 3 9] = [1, 2, 3]
   \<and> operator_eq (lp 2 8) (lp 2 5) \<and> lp 2 8 \<noteq> lp 2 5"
proof -
  note t = LightingParameters_order_by_layer
         [where a = "lp 2 5" and r = "''brake''" and e = Static and ?c1.0 = 8 and ?c2.0 = 0
            and ?c3.0 = 0 and d = 0 and ys = "[lp 1 7, lp 2 8, lp 3 9]"
            and xs = "[lp 3 9, lp 1 7, lp 2 8]"]
  have o: "sorted_wrt (\<lambda>p q. \<not> operator_less q p) [lp 1 7, lp 2 8, lp 3 9]"
    by (simp add: operator_less_def lp_def word_less_nat_alt)
  have p: "mset [lp 1 7, lp 2 8, lp 3 9] = mset [lp 3 9, lp 1 7, lp 2 8]"
    by (simp add: add.commute)
  have l: "map layer [lp 3 9, lp 1 7, lp 2 8] = [3, 1, 2]"
    by (simp add: lp_def)
  note t4 = t [THEN conjunct2, THEN conjunct2, THEN conjunct2, THEN conjunct2, rule_format, OF o p]
  from t4 [THEN conjunct2, rule_format, OF l]
  have m: "map layer [lp 1 7, lp 2 8, lp 3 9] = [1, 2, 3]" .
  from t [THEN conjunct2, THEN conjunct2, THEN conjunct1]
  have e: "operator_eq (lp 2 8) (lp 2 5)"
    by (simp add: lp_def)
  have n: "lp 2 8 \<noteq> lp 2 5" by (simp add: lp_def)
  from m e n show ?thesis by (intro conjI)
qed


section \<open>The application core\<close>

subsection \<open>Traces of the senders and handlers\<close>

lemma emit_Nil: "emit [] app = app"
  by (simp add: emit_def)

lemma emit_emit: "emit es (emit es' app) = emit (es' @ es) app"
  by (simp add: emit_def)

lemma emit_fields:
  "renderer (emit es app) = renderer app"
  "lightMode (emit es app) = lightMode app"
  "renderListeners (emit es app) = renderListeners app"
  "vehicleState (emit es app) = vehicleState app"
  "renderHostHandle (emit es app) = renderHostHandle app"
  "vehicleQueue (emit es app) = vehicleQueue app"
  "tasks (emit es app) = tasks app"
  "events (emit es app) = events app @ es"
  by (simp_all add: emit_def)

lemma cond_emit: "(if c then emit es a else a) = emit (if c then es else []) a"
  by (simp add: emit_Nil)

lemma send_to_listeners_emit:
  "send_to_listeners c ls app = emit (fan_out c ls) app"
proof (induction ls arbitrary: app)
  case Nil
  show ?case by (simp add: emit_Nil map_filter_simps)
next
  case (Cons l ls)
  show ?case
    by (cases "lightsChangedQueue l") (simp_all add: Cons.IH emit_emit map_filter_simps)
qed

lemma notifyLightsChanged_emit:
  "notifyLightsChanged b t h app = emit (fan_out (commands (lightMode app) b t h) (renderListeners app)) app"
  by (simp add: notifyLightsChanged_def send_to_listeners_emit)

lemma setBrakes_emit:
  "setBrakes c app =
     emit ((case renderer app of None \<Rightarrow> [] | Some r \<Rightarrow> queue_send (brakelightQueue r) c)
           @ fan_out (commands (lightMode app) c NoCommand NoCommand) (renderListeners app)) app"
  by (simp add: setBrakes_def notifyLightsChanged_emit emit_emit emit_fields emit_Nil
           split: option.splits)

lemma setTurnLights_emit:
  "setTurnLights c app =
     emit ((case renderer app of None \<Rightarrow> [] | Some r \<Rightarrow> queue_send (turnlightQueue r) c)
           @ fan_out (commands (lightMode app) NoCommand c NoCommand) (renderListeners app)) app"
  by (simp add: setTurnLights_def notifyLightsChanged_emit emit_emit emit_fields emit_Nil
           split: option.splits)

lemma setHeadlight_emit:
  "setHeadlight c app =
     emit ((case renderer app of None \<Rightarrow> [] | Some r \<Rightarrow> queue_send (headlightQueue r) c)
           @ fan_out (commands (lightMode app) NoCommand NoCommand c) (renderListeners app)) app"
  by (simp add: setHeadlight_def notifyLightsChanged_emit emit_emit emit_fields emit_Nil
           split: option.splits)

lemma onAccelerationStateChanged_emit:
  "onAccelerationStateChanged a app =
     emit (brake_output app (if a = Braking then LightsBrake else LightsRunning)) app"
  by (cases a; cases "renderer app")
     (simp_all add: onAccelerationStateChanged_def setBrakes_emit emit_Nil)

lemma onTurnStateChanged_emit:
  "onTurnStateChanged t app =
     emit (turn_output app
             (if t = Left then LightsTurnLeft else if t = Right then LightsTurnRight
              else if t = Hazard then LightsTurnHazard else LightsTurnCenter)) app"
  by (cases t; cases "renderer app")
     (simp_all add: onTurnStateChanged_def setTurnLights_emit emit_Nil)

lemma onOrientationChanged_emit:
  "onOrientationChanged ori app =
     emit (turn_output app (if ori = TopSideUp then LightsOff else LightsReset)
           @ brake_output app (if ori = TopSideUp then LightsOff else LightsReset)
           @ headlight_output app (if ori = TopSideUp then LightsOff else LightsReset)) app"
  by (cases ori; cases "renderer app")
     (simp_all add: onOrientationChanged_def setTurnLights_emit setBrakes_emit setHeadlight_emit
        emit_emit emit_fields emit_Nil)

lemma filter_fan_out:
  "filter is_CommandsSend (fan_out c ls) = fan_out c ls"
  "filter is_RendererNew (fan_out c ls) = []"
  by (simp_all add: filter_map comp_def)


subsection \<open>Command mapping\<close>

text \<open>
  Claim C1. With a renderer present, the handlers map their argument to a command by a
  fixed, total table and hand it on. An acceleration state maps to \<open>LightsBrake\<close> when it
  is \<open>Braking\<close> and to \<open>LightsRunning\<close> for \<open>Neutral\<close> and every other value; the
  command goes to the brake queue and to the listeners in the brake member of the bundle.
  A turn state maps \<open>Left\<close>, \<open>Right\<close> and \<open>Hazard\<close> to their turn commands and
  \<open>Center\<close> and every other value to \<open>LightsTurnCenter\<close>, on the turn queue. An
  orientation maps to \<open>LightsOff\<close> when it is \<open>TopSideUp\<close> and to \<open>LightsReset\<close>
  otherwise, and that one command goes to the turn, brake and headlight queues in the same
  call.
\<close>

theorem command_mapping:
  assumes "renderer app = Some r"
    and "cb = (if a = Braking then LightsBrake else LightsRunning)"
    and "ct = (if t = Left then LightsTurnLeft else if t = Right then LightsTurnRight
               else if t = Hazard then LightsTurnHazard else LightsTurnCenter)"
    and "co = (if ori = TopSideUp then LightsOff else LightsReset)"
  shows "onAccelerationStateChanged a app =
           emit (queue_send (brakelightQueue r) cb
                 @ fan_out (commands (lightMode app) cb NoCommand NoCommand) (renderListeners app))
             app
       \<and> onTurnStateChanged t app =
           emit (queue_send (turnlightQueue r) ct
                 @ fan_out (commands (lightMode app) NoCommand ct NoCommand) (renderListeners app))
             app
       \<and> onOrientationChanged ori app =
           emit (queue_send (turnlightQueue r) co
                 @ fan_out (commands (lightMode app) NoCommand co NoCommand) (renderListeners app)
                 @ queue_send (brakelightQueue r) co
                 @ fan_out (commands (lightMode app) co NoCommand NoCommand) (renderListeners app)
                 @ queue_send (headlightQueue r) co
                 @ fan_out (commands (lightMode app) NoCommand NoCommand co) (renderListeners app))
             app"
proof (intro conjI)
  show "onAccelerationStateChanged a app =
           emit (queue_send (brakelightQueue r) cb
                 @ fan_out (commands (lightMode app) cb NoCommand NoCommand) (renderListeners app))
             app"
    unfolding assms(2) using assms(1) by (cases a) (simp_all add: onAccelerationStateChanged_def setBrakes_emit)
  show "onTurnStateChanged t app =
           emit (queue_send (turnlightQueue r) ct
                 @ fan_out (commands (lightMode app) NoCommand ct NoCommand) (renderListeners app))
             app"
    unfolding assms(3) using assms(1) by (cases t) (simp_all add: onTurnStateChanged_def setTurnLights_emit)
  show "onOrientationChanged ori app =
           emit (queue_send (turnlightQueue r) co
                 @ fan_out (commands (lightMode app) NoCommand co NoCommand) (renderListeners app)
                 @ queue_send (brakelightQueue r) co
                 @ fan_out (commands (lightMode app) co NoCommand NoCommand) (renderListeners app)
                 @ queue_send (headlightQueue r) co
                 @ fan_out (commands (lightMode app) NoCommand NoCommand co) (renderListeners app))
             app"
    unfolding assms(4) using assms(1)
    by (cases ori)
       (simp_all add: onOrientationChanged_def setTurnLights_emit setBrakes_emit setHeadlight_emit
          emit_emit emit_fields)
qed

theorem command_mapping_witness:
  "onAccelerationStateChanged Braking app_running =
     emit [CommandSend 10 LightsBrake,
           CommandsSend 20 (commands RunningMode LightsBrake NoCommand NoCommand)] app_running
   \<and> onTurnStateChanged (TurnState_other 7) app_running =
     emit [CommandSend 11 LightsTurnCenter,
           CommandsSend 20 (commands RunningMode NoCommand LightsTurnCenter NoCommand)] app_running
   \<and> onOrientationChanged TopSideUp app_running =
     emit [CommandSend 11 LightsOff,
           CommandsSend 20 (commands RunningMode NoCommand LightsOff NoCommand),
           CommandSend 10 LightsOff,
           CommandsSend 20 (commands RunningMode LightsOff NoCommand NoCommand),
           CommandSend 12 LightsOff,
           CommandsSend 20 (commands RunningMode NoCommand NoCommand LightsOff)] app_running"
proof -
  have r: "renderer app_running = Some renderer0"
    by (simp add: app_running_def)
  have l: "renderListeners app_running = [\<lparr>lightsChangedQueue = Some 20\<rparr>, \<lparr>lightsChangedQueue = None\<rparr>]"
    and m: "lightMode app_running = RunningMode"
    by (simp_all add: app_running_def app0_def App_constructor_def)
  from command_mapping [OF r refl refl refl, of Braking "TurnState_other 7" TopSideUp]
  show ?thesis
    by (simp add: l m renderer0_def map_filter_simps)
qed

subsection \<open>The command enumeration and the bundle of the header\<close>

text \<open>
  Claim C6 lists \<open>LightsBrake\<close> and \<open>LightsRunning\<close> among the enumerators of
  \<open>LightCommand\<close>. The enumeration of light.h has eleven enumerators with
  \<open>NoCommand\<close> as zero, but its fourth and fifth are \<open>LightsBrakeNormal\<close> and
  \<open>LightsBrakeActive\<close>: the identifiers \<open>LightsBrake\<close> and \<open>LightsRunning\<close> that
  the acceleration handler of app.cpp assigns and sends are not declared there.
\<close>

theorem LightCommand_header_enumerators:
  "map fst LightCommand_enumerators =
     [''NoCommand'', ''LightsOff'', ''LightsReset'', ''LightsBrakeNormal'', ''LightsBrakeActive'',
      ''LightsHeadlightNormal'', ''LightsHeadlightBright'', ''LightsTurnCenter'',
      ''LightsTurnLeft'', ''LightsTurnRight'', ''LightsTurnHazard'']
   \<and> map_of LightCommand_enumerators ''NoCommand'' = Some 0
   \<and> map_of LightCommand_enumerators (LightCommand_name LightsBrake) = None
   \<and> map_of LightCommand_enumerators (LightCommand_name LightsRunning) = None
   \<and> onAccelerationStateChanged Braking app_running =
       emit [CommandSend 10 LightsBrake,
             CommandsSend 20 (commands RunningMode LightsBrake NoCommand NoCommand)] app_running"
  by (simp add: LightCommand_enumerators_def onAccelerationStateChanged_emit app_running_def
        app0_def App_constructor_def renderer0_def map_filter_simps)

text \<open>
  Claim C7 gives the bundle the four members mode, brakeCommand, turnCommand and
  headlightCommand. \<open>struct LightCommands\<close> of light.h has the three command members
  and no member \<open>mode\<close>, while \<open>notifyLightsChanged\<close> of app.cpp assigns
  \<open>commands.mode\<close> and sends a bundle that carries the current mode.
\<close>

theorem LightCommands_header_members:
  "LightCommands_members = [''brakeCommand'', ''turnCommand'', ''headlightCommand'']
   \<and> ''mode'' \<notin> set LightCommands_members
   \<and> notifyLightsChanged NoCommand NoCommand NoCommand app_running =
       emit [CommandsSend 20 \<lparr>mode = RunningMode, brakeCommand = NoCommand,
                               turnCommand = NoCommand, headlightCommand = NoCommand\<rparr>]
         app_running"
  by (simp add: LightCommands_members_def notifyLightsChanged_emit app_running_def
        app0_def App_constructor_def map_filter_simps)

subsection \<open>The mode change\<close>

lemma setLightMode_same: "lightMode app = m \<Longrightarrow> setLightMode new m app = Inr app"
  by (simp add: setLightMode_def)

lemma setLightMode_Inr:
  assumes "setLightMode new m app = Inr a" and "lightMode app \<noteq> m"
  shows "\<exists>r.
           a = app\<lparr>renderer := Some r, renderHostHandle := None, lightMode := m,
                    tasks := (case renderHostHandle app of None \<Rightarrow> tasks app
                              | Some h \<Rightarrow> removeAll h (tasks app)) @ [nextTask app],
                    nextTask := Suc (nextTask app),
                    events := events app
                      @ (case renderHostHandle app of None \<Rightarrow> []
                         | Some h \<Rightarrow>
                             VTaskDelete h
                             # (case renderer app of None \<Rightarrow> []
                                | Some old \<Rightarrow> [RendererShutdown old]))
                      @ [RendererNew r]
                      @ (if m \<in> {TheaterChaseRainbowMode, TheaterChaseMode, RainbowMode, LightningMode}
                         then [] else [LightsRender])
                      @ [XTaskCreatePinnedToCore None (nextTask app)]
                      @ fan_out (commands m NoCommand NoCommand NoCommand) (renderListeners app)\<rparr>"
proof -
  have "\<exists>r. renderer a = Some r"
    using assms
    by (cases "renderHostHandle app"; cases "renderer app"; cases m)
       (auto simp: setLightMode_def vTaskDelete_def emit_def new_renderer_def Let_def
          xTaskCreatePinnedToCore_def notifyLightsChanged_emit
          split: option.splits)
  then obtain r where r: "renderer a = Some r" ..
  have "a = app\<lparr>renderer := Some r, renderHostHandle := None, lightMode := m,
                    tasks := (case renderHostHandle app of None \<Rightarrow> tasks app
                              | Some h \<Rightarrow> removeAll h (tasks app)) @ [nextTask app],
                    nextTask := Suc (nextTask app),
                    events := events app
                      @ (case renderHostHandle app of None \<Rightarrow> []
                         | Some h \<Rightarrow>
                             VTaskDelete h
                             # (case renderer app of None \<Rightarrow> []
                                | Some old \<Rightarrow> [RendererShutdown old]))
                      @ [RendererNew r]
                      @ (if m \<in> {TheaterChaseRainbowMode, TheaterChaseMode, RainbowMode, LightningMode}
                         then [] else [LightsRender])
                      @ [XTaskCreatePinnedToCore None (nextTask app)]
                      @ fan_out (commands m NoCommand NoCommand NoCommand) (renderListeners app)\<rparr>"
    using assms r
    by (cases "renderHostHandle app"; cases "renderer app"; cases m)
       (auto simp: setLightMode_def vTaskDelete_def emit_def new_renderer_def Let_def
          xTaskCreatePinnedToCore_def notifyLightsChanged_emit
          split: option.splits)
  then show ?thesis ..
qed


lemma setLightMode_lightMode:
  assumes "setLightMode new m app = Inr a"
  shows "lightMode a = m"
proof (cases "lightMode app = m")
  case True
  with assms show ?thesis by (simp add: setLightMode_same)
next
  case False
  from setLightMode_Inr [OF assms False] show ?thesis by auto
qed



subsection \<open>Idempotence of the mode change\<close>

text \<open>
  Claim C3. \<open>setLightMode m\<close> with the current mode already \<open>m\<close> returns the
  application object unchanged: nothing is torn down, constructed or sent. After a call
  that returned, the mode is \<open>m\<close>, so a second call with the same \<open>m\<close> is that
  no-op. When the first call did change the mode, the two calls together put exactly one
  renderer construction into the trace, and their listener notifications are one bundle
  for \<open>m\<close> with three \<open>NoCommand\<close> members per listener queue.
\<close>

theorem setLightMode_idempotent:
  "(lightMode app = m \<longrightarrow> setLightMode new m app = Inr app)
   \<and> (setLightMode new m app = Inr a1 \<longrightarrow>
        setLightMode new m a1 = Inr a1
        \<and> (lightMode app \<noteq> m \<longrightarrow>
             (\<exists>es. events a1 = events app @ es
                \<and> length (filter is_RendererNew es) = 1
                \<and> filter is_CommandsSend es
                    = fan_out (commands m NoCommand NoCommand NoCommand) (renderListeners app))))"
proof (intro conjI impI)
  assume "lightMode app = m"
  then show "setLightMode new m app = Inr app"
    by (rule setLightMode_same)
next
  assume r: "setLightMode new m app = Inr a1"
  show "setLightMode new m a1 = Inr a1"
    using setLightMode_lightMode [OF r] by (rule setLightMode_same)
  assume d: "lightMode app \<noteq> m"
  from setLightMode_Inr [OF r d] obtain rn where
    "a1 = app\<lparr>renderer := Some rn, renderHostHandle := None, lightMode := m,
                    tasks := (case renderHostHandle app of None \<Rightarrow> tasks app
                              | Some h \<Rightarrow> removeAll h (tasks app)) @ [nextTask app],
                    nextTask := Suc (nextTask app),
                    events := events app
                      @ (case renderHostHandle app of None \<Rightarrow> []
                         | Some h \<Rightarrow>
                             VTaskDelete h
                             # (case renderer app of None \<Rightarrow> []
                                | Some old \<Rightarrow> [RendererShutdown old]))
                      @ [RendererNew rn]
                      @ (if m \<in> {TheaterChaseRainbowMode, TheaterChaseMode, RainbowMode, LightningMode}
                         then [] else [LightsRender])
                      @ [XTaskCreatePinnedToCore None (nextTask app)]
                      @ fan_out (commands m NoCommand NoCommand NoCommand) (renderListeners app)\<rparr>"
    ..
  then have "events a1 = events app
                      @ ((case renderHostHandle app of None \<Rightarrow> []
                         | Some h \<Rightarrow>
                             VTaskDelete h
                             # (case renderer app of None \<Rightarrow> []
                                | Some old \<Rightarrow> [RendererShutdown old]))
                      @ [RendererNew rn]
                      @ (if m \<in> {TheaterChaseRainbowMode, TheaterChaseMode, RainbowMode, LightningMode}
                         then [] else [LightsRender])
                      @ [XTaskCreatePinnedToCore None (nextTask app)]
                      @ fan_out (commands m NoCommand NoCommand NoCommand) (renderListeners app))"
    by simp
  moreover have "length (filter is_RendererNew ((case renderHostHandle app of None \<Rightarrow> []
                         | Some h \<Rightarrow>
                             VTaskDelete h
                             # (case renderer app of None \<Rightarrow> []
                                | Some old \<Rightarrow> [RendererShutdown old]))
                      @ [RendererNew rn]
                      @ (if m \<in> {TheaterChaseRainbowMode, TheaterChaseMode, RainbowMode, LightningMode}
                         then [] else [LightsRender])
                      @ [XTaskCreatePinnedToCore None (nextTask app)]
                      @ fan_out (commands m NoCommand NoCommand NoCommand) (renderListeners app))) = 1"
    by (simp add: filter_fan_out split: option.splits)
  moreover have "filter is_CommandsSend ((case renderHostHandle app of None \<Rightarrow> []
                         | Some h \<Rightarrow>
                             VTaskDelete h
                             # (case renderer app of None \<Rightarrow> []
                                | Some old \<Rightarrow> [RendererShutdown old]))
                      @ [RendererNew rn]
                      @ (if m \<in> {TheaterChaseRainbowMode, TheaterChaseMode, RainbowMode, LightningMode}
                         then [] else [LightsRender])
                      @ [XTaskCreatePinnedToCore None (nextTask app)]
                      @ fan_out (commands m NoCommand NoCommand NoCommand) (renderListeners app))
                    = fan_out (commands m NoCommand NoCommand NoCommand) (renderListeners app)"
    by (simp add: filter_fan_out split: option.splits)
  ultimately show "\<exists>es. events a1 = events app @ es
                \<and> length (filter is_RendererNew es) = 1
                \<and> filter is_CommandsSend es
                    = fan_out (commands m NoCommand NoCommand NoCommand) (renderListeners app)"
    by blast
qed

theorem setLightMode_idempotent_witness:
  "\<exists>a1. setLightMode new0 RainbowMode app0 = Inr a1 \<and> setLightMode new0 RainbowMode a1 = Inr a1
      \<and> (\<exists>es. events a1 = events app0 @ es \<and> length (filter is_RendererNew es) = 1
            \<and> filter is_CommandsSend es
              = [CommandsSend 20 (commands RainbowMode NoCommand NoCommand NoCommand)])"
proof -
  have l: "renderListeners app0 = [\<lparr>lightsChangedQueue = Some 20\<rparr>, \<lparr>lightsChangedQueue = None\<rparr>]"
    and d: "lightMode app0 \<noteq> RainbowMode"
    by (simp_all add: app0_def App_constructor_def)
  have "\<exists>a1. setLightMode new0 RainbowMode app0 = Inr a1"
    by (simp add: setLightMode_def app0_def App_constructor_def new_renderer_def new0_def)
  then obtain a1 where a: "setLightMode new0 RainbowMode app0 = Inr a1" ..
  note t = setLightMode_idempotent [of app0 RainbowMode new0 a1, THEN conjunct2, rule_format, OF a]
  from t [THEN conjunct2, rule_format, OF d]
  have "\<exists>es. events a1 = events app0 @ es \<and> length (filter is_RendererNew es) = 1
            \<and> filter is_CommandsSend es
              = [CommandsSend 20 (commands RainbowMode NoCommand NoCommand NoCommand)]"
    by (simp add: l map_filter_simps)
  with a t [THEN conjunct1] show ?thesis by blast
qed

subsection \<open>Teardown on a mode change\<close>

lemma setLightMode_handle_not_kept:
  assumes "setLightMode new m app = Inr a" and "lightMode app \<noteq> m"
  shows "renderHostHandle a = None" and "nextTask app \<in> set (tasks a)"
  using setLightMode_Inr [OF assms] by auto

lemma setLightMode_no_teardown:
  assumes "setLightMode new m app = Inr a" and "lightMode app \<noteq> m"
    and "renderHostHandle app = None"
  shows "\<exists>es. events a = events app @ es \<and> filter is_VTaskDelete es = []
           \<and> filter is_RendererShutdown es = [] \<and> tasks a = tasks app @ [nextTask app]"
proof -
  from setLightMode_Inr [OF assms(1,2)] assms(3) obtain rn where
    "a = app\<lparr>renderer := Some rn, renderHostHandle := None, lightMode := m,
                    tasks := tasks app @ [nextTask app],
                    nextTask := Suc (nextTask app),
                    events := events app
                      @ [RendererNew rn]
                      @ (if m \<in> {TheaterChaseRainbowMode, TheaterChaseMode, RainbowMode, LightningMode}
                         then [] else [LightsRender])
                      @ [XTaskCreatePinnedToCore None (nextTask app)]
                      @ fan_out (commands m NoCommand NoCommand NoCommand) (renderListeners app)\<rparr>"
    by auto
  then have "events a = events app @ ([RendererNew rn]
                      @ (if m \<in> {TheaterChaseRainbowMode, TheaterChaseMode, RainbowMode, LightningMode}
                         then [] else [LightsRender])
                      @ [XTaskCreatePinnedToCore None (nextTask app)]
                      @ fan_out (commands m NoCommand NoCommand NoCommand) (renderListeners app))"
    and "tasks a = tasks app @ [nextTask app]"
    by simp_all
  moreover have "filter is_VTaskDelete ([RendererNew rn]
                      @ (if m \<in> {TheaterChaseRainbowMode, TheaterChaseMode, RainbowMode, LightningMode}
                         then [] else [LightsRender])
                      @ [XTaskCreatePinnedToCore None (nextTask app)]
                      @ fan_out (commands m NoCommand NoCommand NoCommand) (renderListeners app)) = []"
    by (simp add: filter_map comp_def)
  moreover have "filter is_RendererShutdown ([RendererNew rn]
                      @ (if m \<in> {TheaterChaseRainbowMode, TheaterChaseMode, RainbowMode, LightningMode}
                         then [] else [LightsRender])
                      @ [XTaskCreatePinnedToCore None (nextTask app)]
                      @ fan_out (commands m NoCommand NoCommand NoCommand) (renderListeners app)) = []"
    by (simp add: filter_map comp_def)
  ultimately show ?thesis by blast
qed

text \<open>
  Claim C4 asks that a mode change with a render host task running deletes that task and
  shuts the old renderer down before it constructs the new one. \<open>setLightMode\<close> tests
  \<open>renderHostHandle\<close> for that, but no statement of app.cpp ever stores a task handle
  there: line 208 passes the member by value where \<open>xTaskCreatePinnedToCore\<close> expects
  the address to write the handle to. Evaluated on the application object as constructed:
  after the change to the rainbow mode task 0 runs and the handle is null; the following
  change to the running mode constructs the new renderer and starts task 1 with no
  \<open>vTaskDelete\<close> and no \<open>shutdown\<close> in between, and both tasks run.
\<close>

theorem second_mode_change_skips_teardown:
  "(case setLightMode new0 RainbowMode app0 of
      Inl f \<Rightarrow> None
    | Inr a1 \<Rightarrow>
        (case setLightMode new0 RunningMode a1 of
           Inl f \<Rightarrow> None
         | Inr a2 \<Rightarrow> Some (tasks a1, renderer a1, renderHostHandle a1, events a1, events a2, tasks a2)))
   = Some ([0],
           Some \<lparr>rendererClass = PatternRenderer ''rainbow'', brakelightQueue = Some 10,
                  turnlightQueue = Some 11, headlightQueue = Some 12\<rparr>,
           None,
           [RendererNew \<lparr>rendererClass = PatternRenderer ''rainbow'', brakelightQueue = Some 10,
                          turnlightQueue = Some 11, headlightQueue = Some 12\<rparr>,
            XTaskCreatePinnedToCore None 0,
            CommandsSend 20 (commands RainbowMode NoCommand NoCommand NoCommand)],
           [RendererNew \<lparr>rendererClass = PatternRenderer ''rainbow'', brakelightQueue = Some 10,
                          turnlightQueue = Some 11, headlightQueue = Some 12\<rparr>,
            XTaskCreatePinnedToCore None 0,
            CommandsSend 20 (commands RainbowMode NoCommand NoCommand NoCommand),
            RendererNew \<lparr>rendererClass = RunningRenderer None, brakelightQueue = Some 10,
                          turnlightQueue = Some 11, headlightQueue = Some 12\<rparr>,
            LightsRender,
            XTaskCreatePinnedToCore None 1,
            CommandsSend 20 (commands RunningMode NoCommand NoCommand NoCommand)],
           [0, 1])"
  by (simp add: setLightMode_def app0_def App_constructor_def new_renderer_def new0_def
        xTaskCreatePinnedToCore_def notifyLightsChanged_def emit_def xQueueCreate_def)

subsection \<open>Failure of the construction\<close>

text \<open>
  Claim C9 as stated, that a failed construction leaves the application in a state with a
  null renderer handle, fails: in running mode with a renderer and no task handle, a
  request for the rainbow mode whose \<open>new\<close> fails leaves \<open>setLightMode\<close> with the
  fault \<open>BadAlloc\<close> and the application object untouched, the previous renderer still
  referenced.
\<close>

theorem construction_failure_counterexample:
  "setLightMode new_fails RainbowMode app_running = Inl (BadAlloc, app_running)
   \<and> renderer app_running = Some renderer0"
  by (simp add: setLightMode_def new_renderer_def new_fails_def app_running_def app0_def
        App_constructor_def)

text \<open>
  Claim C9, amended. When every construction fails, a mode change to a different mode does
  not return normally: \<open>setLightMode\<close> ends with the fault \<open>BadAlloc\<close> before a task is
  started, the mode is updated or a listener is notified. If the teardown branch ran (task
  handle and renderer both non-null), the renderer handle and the task handle are already
  null at that point, so the renderer that was shut down is no longer referenced; if the
  task handle was null, the application object is unchanged.
\<close>

theorem construction_failure:
  assumes "lightMode app \<noteq> m" and "\<forall>cls. new cls = None"
  shows "(renderHostHandle app = None \<longrightarrow> setLightMode new m app = Inl (BadAlloc, app))
       \<and> (\<forall>h old. renderHostHandle app = Some h \<longrightarrow> renderer app = Some old \<longrightarrow>
            setLightMode new m app =
              Inl (BadAlloc, app\<lparr>tasks := removeAll h (tasks app),
                                 events := events app @ [VTaskDelete h, RendererShutdown old],
                                 renderer := None, renderHostHandle := None\<rparr>))
       \<and> (\<forall>a. setLightMode new m app \<noteq> Inr a)"
proof (intro conjI allI impI)
  assume "renderHostHandle app = None"
  then show "setLightMode new m app = Inl (BadAlloc, app)"
    using assms by (cases m) (simp_all add: setLightMode_def new_renderer_def)
next
  fix h old
  assume "renderHostHandle app = Some h" and "renderer app = Some old"
  then show "setLightMode new m app =
              Inl (BadAlloc, app\<lparr>tasks := removeAll h (tasks app),
                                 events := events app @ [VTaskDelete h, RendererShutdown old],
                                 renderer := None, renderHostHandle := None\<rparr>)"
    using assms
    by (cases m) (simp_all add: setLightMode_def new_renderer_def vTaskDelete_def emit_def)
next
  fix a
  show "setLightMode new m app \<noteq> Inr a"
  proof
    assume "setLightMode new m app = Inr a"
    with assms show False
      by (cases "renderHostHandle app"; cases "renderer app"; cases m)
         (simp_all add: setLightMode_def new_renderer_def vTaskDelete_def emit_def)
  qed
qed

theorem construction_failure_witness:
  "setLightMode new_fails RainbowMode app_torn =
     Inl (BadAlloc, app_torn\<lparr>tasks := [], events := [VTaskDelete 3, RendererShutdown renderer0],
                             renderer := None, renderHostHandle := None\<rparr>)
   \<and> setLightMode new_fails RainbowMode app0 = Inl (BadAlloc, app0)"
proof -
  have f: "\<forall>cls. new_fails cls = None"
    by (simp add: new_fails_def)
  have d: "lightMode app_torn \<noteq> RainbowMode" and d0: "lightMode app0 \<noteq> RainbowMode"
    by (simp_all add: app_torn_def app_running_def app0_def App_constructor_def)
  have h: "renderHostHandle app_torn = Some 3" and r: "renderer app_torn = Some renderer0"
    and t: "tasks app_torn = [3]" and e: "events app_torn = []"
    and h0: "renderHostHandle app0 = None"
    by (simp_all add: app_torn_def app_running_def app0_def App_constructor_def)
  from construction_failure [OF d f, THEN conjunct2, THEN conjunct1, rule_format, OF h r]
  have "setLightMode new_fails RainbowMode app_torn =
     Inl (BadAlloc, app_torn\<lparr>tasks := [], events := [VTaskDelete 3, RendererShutdown renderer0],
                             renderer := None, renderHostHandle := None\<rparr>)"
    by (simp add: t e)
  moreover from construction_failure [OF d0 f, THEN conjunct1, rule_format, OF h0]
  have "setLightMode new_fails RainbowMode app0 = Inl (BadAlloc, app0)" .
  ultimately show ?thesis by (rule conjI)
qed

subsection \<open>The processing cycle\<close>

lemma drain_vehicleQueue_last:
  "drain_vehicleQueue q st n =
     (if items q = [] then (q, st, n) else (q\<lparr>items := []\<rparr>, Some (last (items q)), True))"
proof (induction q st n rule: drain_vehicleQueue.induct)
  case (1 q state newVehicleState)
  show ?case
  proof (cases "items q")
    case Nil
    then show ?thesis by (simp add: uxQueueMessagesWaiting_def)
  next
    case (Cons x xs)
    then have r: "xQueueReceive q = Some (x, q\<lparr>items := xs\<rparr>)"
      by (simp add: xQueueReceive_def)
    have w: "uxQueueMessagesWaiting q \<noteq> 0"
      using Cons by (simp add: uxQueueMessagesWaiting_def)
    from "1.IH"(2) [OF w r refl]
    show ?thesis
      using Cons r w by (subst drain_vehicleQueue.simps) (simp del: drain_vehicleQueue.simps)
  qed
qed



lemma process_vehicleState_empty:
  "items (vehicleQueue app) = [] \<Longrightarrow> process_vehicleState app = Inr app"
  by (simp add: process_vehicleState_def drain_vehicleQueue_last del: drain_vehicleQueue.simps)

lemma process_vehicleState_pending:
  assumes "items (vehicleQueue app) \<noteq> []"
  shows "process_vehicleState app =
     Inr ((emit
            ((if acceleration (vehicleState app) \<noteq> acceleration (last (items (vehicleQueue app)))
              then brake_output app
                     (if acceleration (last (items (vehicleQueue app))) = Braking
                      then LightsBrake else LightsRunning)
              else [])
             @ (if turn (vehicleState app) \<noteq> turn (last (items (vehicleQueue app)))
                then turn_output app
                       (if turn (last (items (vehicleQueue app))) = Left then LightsTurnLeft
                        else if turn (last (items (vehicleQueue app))) = Right then LightsTurnRight
                        else if turn (last (items (vehicleQueue app))) = Hazard then LightsTurnHazard
                        else LightsTurnCenter)
                else [])
             @ (if orientation (vehicleState app) \<noteq> orientation (last (items (vehicleQueue app)))
                then turn_output app
                       (if orientation (last (items (vehicleQueue app))) = TopSideUp
                        then LightsOff else LightsReset)
                     @ brake_output app
                       (if orientation (last (items (vehicleQueue app))) = TopSideUp
                        then LightsOff else LightsReset)
                     @ headlight_output app
                       (if orientation (last (items (vehicleQueue app))) = TopSideUp
                        then LightsOff else LightsReset)
                else []))
            app)
          \<lparr>vehicleQueue := (vehicleQueue app)\<lparr>items := []\<rparr>,
            vehicleState := last (items (vehicleQueue app))\<rparr>)"
  using assms
  by (simp add: process_vehicleState_def drain_vehicleQueue_last Let_def
        onAccelerationStateChanged_emit onTurnStateChanged_emit onOrientationChanged_emit
        emit_emit emit_fields emit_Nil cond_emit
      del: drain_vehicleQueue.simps split del: if_split cong: option.case_cong if_cong)
    (simp add: emit_def split del: if_split cong: option.case_cong if_cong)



lemma process_configUpdated_idle:
  "items (configUpdatedQueue app) = [] \<Longrightarrow> process_configUpdated new app = Inr app"
  by (simp add: process_configUpdated_def uxQueueMessagesWaiting_def)

lemma process_lightMode_idle:
  "items (lightModeQueue app) = [] \<Longrightarrow> process_lightMode new app = Inr app"
  by (simp add: process_lightMode_def uxQueueMessagesWaiting_def)

lemma process_idle:
  "items (configUpdatedQueue app) = [] \<Longrightarrow> items (lightModeQueue app) = [] \<Longrightarrow>
     process new app = process_vehicleState app"
  by (simp add: process_def process_configUpdated_idle process_lightMode_idle)






subsection \<open>Coalescing of vehicle states\<close>



subsection \<open>No renderer, no output\<close>

text \<open>
  Claim C10. While the renderer handle is null the three handlers return the application
  object as it is: no command goes to a renderer queue and no bundle goes to a listener.
  A cycle that only has vehicle states to process then adds nothing to the trace.
\<close>

theorem no_renderer_no_output:
  assumes "renderer app = None"
  shows "onAccelerationStateChanged a app = app
       \<and> onTurnStateChanged t app = app
       \<and> onOrientationChanged ori app = app
       \<and> (items (configUpdatedQueue app) = [] \<and> items (lightModeQueue app) = [] \<longrightarrow>
            (\<exists>a'. process new app = Inr a' \<and> events a' = events app \<and> renderer a' = None))"
proof (intro conjI impI)
  assume "items (configUpdatedQueue app) = [] \<and> items (lightModeQueue app) = []"
  then have p: "process new app = process_vehicleState app"
    by (simp add: process_idle)
  show "\<exists>a'. process new app = Inr a' \<and> events a' = events app \<and> renderer a' = None"
  proof (cases "items (vehicleQueue app) = []")
    case True
    with assms show ?thesis
      by (simp add: p process_vehicleState_empty)
  next
    case False
    with assms show ?thesis
      by (simp add: p process_vehicleState_pending emit_fields)
  qed
qed (simp_all add: assms onAccelerationStateChanged_def onTurnStateChanged_def
      onOrientationChanged_def)

theorem no_renderer_no_output_witness:
  "onAccelerationStateChanged Braking app_pending_off = app_pending_off
   \<and> onOrientationChanged TopSideUp app_pending_off = app_pending_off
   \<and> (\<exists>a'. process new0 app_pending_off = Inr a' \<and> events a' = [])"
proof -
  have r: "renderer app_pending_off = None"
    by (simp add: app_pending_off_def)
  have i: "items (configUpdatedQueue app_pending_off) = []
           \<and> items (lightModeQueue app_pending_off) = []"
    by (simp add: app_pending_off_def app_pending_def app_running_def app0_def
          App_constructor_def xQueueCreate_def)
  have e: "events app_pending_off = []"
    by (simp add: app_pending_off_def app_pending_def app_running_def app0_def
          App_constructor_def)
  note t = no_renderer_no_output [OF r, of Braking _ TopSideUp new0]
  from t [THEN conjunct2, THEN conjunct2, THEN conjunct2, rule_format, OF i]
  have p: "\<exists>a'. process new0 app_pending_off = Inr a' \<and> events a' = []"
    unfolding e by blast
  from t [THEN conjunct1] t [THEN conjunct2, THEN conjunct2, THEN conjunct1] p
  show ?thesis by (intro conjI)
qed

subsection \<open>Edge-triggered commands\<close>





end
